theory Spec2Isabelle
  imports Main
begin

section \<open>Python strings\<close>

text \<open>
  A Python \<open>str\<close> is modelled as a \<open>string\<close> whose characters are the code points
  below 256. In that range the characters that \<open>str.strip()\<close> removes are the ones
  listed in \<open>is_space\<close>, and the only characters matched by the regular expression
  class \<open>\d\<close> are the ten ASCII digits.
\<close>

definition is_space :: "char \<Rightarrow> bool" where
  "is_space c = (c \<in> set [CHR 0x09, CHR 0x0A, CHR 0x0B, CHR 0x0C, CHR 0x0D,
                           CHR 0x1C, CHR 0x1D, CHR 0x1E, CHR 0x1F, CHR 0x20,
                           CHR 0x85, CHR 0xA0])"

definition is_digit :: "char \<Rightarrow> bool" where
  "is_digit c = (c \<in> set ''0123456789'')"

text \<open>\<open>s.strip()\<close>: leading and trailing whitespace removed.\<close>

definition strip :: "string \<Rightarrow> string" where
  "strip s = rev (dropWhile is_space (rev (dropWhile is_space s)))"

text \<open>\<open>s.replace(c, "")\<close> for a one-character \<open>c\<close>: every occurrence removed.\<close>

definition remove_char :: "char \<Rightarrow> string \<Rightarrow> string" where
  "remove_char c s = filter (\<lambda>d. d \<noteq> c) s"

text \<open>\<open>s.startswith(p)\<close>.\<close>

definition startswith :: "string \<Rightarrow> string \<Rightarrow> bool" where
  "startswith s p = (take (length p) s = p)"

section \<open>Phone normalization\<close>

text \<open>The character class \<open>[\d\+]\<close>.\<close>

definition phone_char :: "char \<Rightarrow> bool" where
  "phone_char c = (is_digit c \<or> c = CHR ''+'')"

text \<open>
  \<open>PHONE_REGEX.match(s)\<close> for \<open>PHONE_REGEX = re.compile(r"^[\d\+]+$")\<close>. Without the
  MULTILINE flag, \<open>^\<close> matches at the start only and \<open>$\<close> matches at the end of the
  string and also just before a line feed that is the last character of the string. The
  line feed is not in the class, so the match exists exactly when the string, without one
  final line feed if it has one, is a non-empty run of class characters.
\<close>

definition PHONE_REGEX_match :: "string \<Rightarrow> bool" where
  "PHONE_REGEX_match s =
     (let body = (if s \<noteq> [] \<and> last s = CHR 0x0A then butlast s else s)
      in body \<noteq> [] \<and> list_all phone_char body)"

definition normalize_phone :: "string \<Rightarrow> string" where
  "normalize_phone raw =
     (let phone = remove_char (CHR ''-'') (remove_char (CHR '' '') (strip raw))
      in if \<not> PHONE_REGEX_match phone then phone
         else if startswith phone ''00'' then ''+'' @ drop 2 phone
         else if startswith phone ''+'' then phone
         else if startswith phone ''39'' then ''+'' @ phone
         else ''+'' @ phone)"

text \<open>
  The normalizer as the specification words it: the pattern is "one or more characters
  drawn only from digits and plus", with no allowance for a final line feed.
\<close>

definition spec_pattern :: "string \<Rightarrow> bool" where
  "spec_pattern s = (s \<noteq> [] \<and> list_all phone_char s)"

definition normalize_spec :: "string \<Rightarrow> string" where
  "normalize_spec raw =
     (let cleaned = remove_char (CHR ''-'') (remove_char (CHR '' '') (strip raw))
      in if \<not> spec_pattern cleaned then cleaned
         else if startswith cleaned ''00'' then ''+'' @ drop 2 cleaned
         else if startswith cleaned ''+'' then cleaned
         else if startswith cleaned ''39'' then ''+'' @ cleaned
         else ''+'' @ cleaned)"

text \<open>The chain of prefix rules that \<open>normalize_phone\<close> applies to a string that passed
  the pattern test (the four \<open>return\<close> statements after the fallback).\<close>

definition prefix_rules :: "string \<Rightarrow> string" where
  "prefix_rules phone =
     (if startswith phone ''00'' then ''+'' @ drop 2 phone
      else if startswith phone ''+'' then phone
      else if startswith phone ''39'' then ''+'' @ phone
      else ''+'' @ phone)"

section \<open>More Python built-ins\<close>

text \<open>\<open>s.split(sep)\<close> for a one-character separator: every occurrence splits, empty
  pieces are kept, and the empty string gives one empty piece.\<close>

fun split_char :: "char \<Rightarrow> string \<Rightarrow> string list" where
  "split_char sep [] = [[]]"
| "split_char sep (c # cs) =
     (if c = sep then [] # split_char sep cs
      else (case split_char sep cs of
              w # ws \<Rightarrow> (c # w) # ws
            | [] \<Rightarrow> [[c]]))"

text \<open>\<open>sep.join(xs)\<close>.\<close>

fun join :: "string \<Rightarrow> string list \<Rightarrow> string" where
  "join sep [] = []"
| "join sep [x] = x"
| "join sep (x # y # zs) = x @ sep @ join sep (y # zs)"

text \<open>
  \<open>int(s)\<close> for a string \<open>s\<close>, base ten; \<open>None\<close> stands for \<open>ValueError\<close>. The
  whitespace that \<open>int\<close> skips at both ends is \<open>is_int_space\<close> (it does not include the
  four separator characters 0x1C to 0x1F that \<open>strip\<close> removes). After an optional sign
  come decimal digits, where single underscores may stand between two digits. A string
  with more digits than \<open>int_max_str_digits\<close> (underscores, sign and whitespace not
  counted, leading zeros counted) is refused with \<open>ValueError\<close> as well; the bound is
  the interpreter's default, \<open>sys.get_int_max_str_digits()\<close>.
\<close>

definition int_max_str_digits :: nat where
  "int_max_str_digits = 4300"

definition is_int_space :: "char \<Rightarrow> bool" where
  "is_int_space c = (c \<in> set [CHR 0x09, CHR 0x0A, CHR 0x0B, CHR 0x0C, CHR 0x0D,
                               CHR 0x20, CHR 0x85, CHR 0xA0])"

fun digits_ok :: "string \<Rightarrow> bool" where
  "digits_ok [] = False"
| "digits_ok [c] = is_digit c"
| "digits_ok (c # d # cs) =
     (if is_digit c then (if d = CHR ''_'' then digits_ok cs else digits_ok (d # cs))
      else False)"

definition digit_value :: "char \<Rightarrow> nat" where
  "digit_value c = length (takeWhile (\<lambda>d. d \<noteq> c) ''0123456789'')"

definition decimal_value :: "string \<Rightarrow> nat" where
  "decimal_value ds = foldl (\<lambda>acc c. 10 * acc + digit_value c) 0 (remove_char (CHR ''_'') ds)"

definition int_of_str :: "string \<Rightarrow> int option" where
  "int_of_str s =
     (let t = rev (dropWhile is_int_space (rev (dropWhile is_int_space s)));
          neg = (t \<noteq> [] \<and> hd t = CHR ''-'');
          ds = (if t \<noteq> [] \<and> (hd t = CHR ''-'' \<or> hd t = CHR ''+'') then tl t else t)
      in if digits_ok ds \<and> length (remove_char (CHR ''_'') ds) \<le> int_max_str_digits
         then Some (if neg then - int (decimal_value ds) else int (decimal_value ds))
         else None)"

text \<open>A value that is either a Python \<open>int\<close> or a Python \<open>str\<close>: what
  \<open>rec.get(name, 0)\<close> can return. \<open>py_int\<close> is the built-in \<open>int\<close> on such a value.\<close>

datatype pyval = PyInt int | PyStr string

fun py_int :: "pyval \<Rightarrow> int option" where
  "py_int (PyInt n) = Some n"
| "py_int (PyStr s) = int_of_str s"

section \<open>Configuration\<close>

text \<open>The module-level settings, read from the environment once.\<close>

record config =
  CSV_PATH :: string
  PHONE_COL :: string
  CONTRACT_COL :: string
  DEFAULT_FIELDS :: "string list"

text \<open>The settings when no environment variable is set.\<close>

definition default_config :: config where
  "default_config =
     \<lparr>CSV_PATH = ''nlpearl_test_db.csv'',
      PHONE_COL = ''phone_number'',
      CONTRACT_COL = ''contract_code'',
      DEFAULT_FIELDS = split_char (CHR '','')
        ''contract_code,platform,status,average_arpu,service_type,activation_date''\<rparr>"

section \<open>The data frame\<close>

text \<open>
  The table that \<open>pd.read_csv(..., dtype=str).fillna("")\<close> returns: its column labels
  and its rows in file order, under the default index 0, 1, 2, ... Every cell is a
  string. A row gives the cell under each label; the table is rectangular, so the cell
  exists for every label in \<open>columns\<close>, and a cell under any other label is never read.
\<close>

record dataframe =
  columns :: "string list"
  rows :: "(string \<Rightarrow> string) list"

text \<open>A row taken out of the frame (\<open>pd.Series\<close>): the labels and the cells.\<close>

type_synonym series = "string list \<times> (string \<Rightarrow> string)"

text \<open>\<open>df[col]\<close>: the values of one column, in row order.\<close>

definition column :: "dataframe \<Rightarrow> string \<Rightarrow> string list" where
  "column d col = map (\<lambda>r. r col) (rows d)"

text \<open>\<open>df[col] = df[col].apply(f)\<close>.\<close>

definition apply_column :: "string \<Rightarrow> (string \<Rightarrow> string) \<Rightarrow> dataframe \<Rightarrow> dataframe" where
  "apply_column col f d = d\<lparr>rows := map (\<lambda>r. r(col := f (r col))) (rows d)\<rparr>"

text \<open>\<open>df.loc[i, [c1, c2]] = [v1, v2]\<close> for a row label \<open>i\<close> that exists.\<close>

definition set_cells :: "nat \<Rightarrow> string \<Rightarrow> string \<Rightarrow> string \<Rightarrow> string \<Rightarrow> dataframe \<Rightarrow> dataframe" where
  "set_cells i c1 v1 c2 v2 d = d\<lparr>rows := (rows d)[i := (rows d ! i)(c1 := v1, c2 := v2)]\<rparr>"

text \<open>\<open>df.loc[i]\<close>: the row with label \<open>i\<close>; a label that is not in the index raises
  \<open>KeyError\<close>, here \<open>None\<close>.\<close>

definition loc :: "dataframe \<Rightarrow> nat \<Rightarrow> series option" where
  "loc d i = (if i < length (rows d) then Some (columns d, rows d ! i) else None)"

text \<open>\<open>rec.get(name, default)\<close>.\<close>

definition series_get :: "series \<Rightarrow> string \<Rightarrow> pyval \<Rightarrow> pyval" where
  "series_get rec name dflt = (if name \<in> set (fst rec) then PyStr (snd rec name) else dflt)"

section \<open>Loading and indexing\<close>

text \<open>\<open>{val: idx for idx, val in enumerate(values)}\<close>: the entries are inserted in
  order, a later one replacing an earlier one under the same key.\<close>

definition build_index :: "string list \<Rightarrow> (string \<rightharpoonup> nat)" where
  "build_index vals = fold (\<lambda>(idx, val) m. m(val \<mapsto> idx)) (enumerate 0 vals) Map.empty"

record store =
  df :: dataframe
  phone_idx :: "string \<rightharpoonup> nat"
  contract_idx :: "string \<rightharpoonup> nat"

datatype read_error = FileNotFoundError | EmptyDataError | OtherError string

datatype load_error = RuntimeError string

text \<open>
  \<open>load_data\<close>, given what reading the file produced: an exception of the reader or
  the frame. When the phone and the contract column are configured to the same label,
  the patch of row 49 is modelled as writing the contract value first and the phone value
  second; no statement below relies on that case.
\<close>

definition load_data :: "config \<Rightarrow> read_error + dataframe \<Rightarrow> load_error + store" where
  "load_data cfg csv =
     (case csv of
        Inl FileNotFoundError \<Rightarrow> Inl (RuntimeError (''CSV file not found at '' @ CSV_PATH cfg))
      | Inl EmptyDataError \<Rightarrow> Inl (RuntimeError (''CSV file at '' @ CSV_PATH cfg @ '' is empty''))
      | Inl (OtherError msg) \<Rightarrow> Inl (RuntimeError (''Error loading data: '' @ msg))
      | Inr d0 \<Rightarrow>
          (let d1 = (if PHONE_COL cfg \<in> set (columns d0)
                     then apply_column (PHONE_COL cfg) normalize_phone d0 else d0);
               required_cols = [PHONE_COL cfg, CONTRACT_COL cfg] @ DEFAULT_FIELDS cfg;
               missing_cols = filter (\<lambda>col. col \<notin> set (columns d1)) required_cols
           in if missing_cols \<noteq> []
              then Inl (RuntimeError (''Error loading data: Missing required columns: ''
                          @ join '', '' missing_cols))
              else
                (let d2 = (if length (rows d1) > 49
                           then set_cells 49 (CONTRACT_COL cfg) ''1234566789''
                                  (PHONE_COL cfg) (normalize_phone ''+393478933194'') d1
                           else d1)
                 in Inr \<lparr>df = d2,
                         phone_idx = build_index (column d2 (PHONE_COL cfg)),
                         contract_idx = build_index (column d2 (CONTRACT_COL cfg))\<rparr>)))"

section \<open>Projection and lookups\<close>

text \<open>\<open>slice_row\<close>: the dictionary \<open>{c: rec[c] for c in cols if c in rec}\<close>.\<close>

definition slice_row :: "series \<Rightarrow> string list \<Rightarrow> (string \<rightharpoonup> string)" where
  "slice_row rec cols =
     (\<lambda>c. if c \<in> set cols \<and> c \<in> set (fst rec) then Some (snd rec c) else None)"

text \<open>The three ways a request handler aborts, each with the description it passes.\<close>

datatype http_error = BadRequest string | NotFound string | InternalError string

text \<open>\<open>fields.split(",") if fields else DEFAULT_FIELDS\<close>, where \<open>fields_arg\<close> stands for
  the query parameter \<open>fields\<close>, \<open>None\<close> when the request does not carry it.\<close>

definition wanted_fields :: "config \<Rightarrow> string option \<Rightarrow> string list" where
  "wanted_fields cfg fields_arg =
     (case fields_arg of
        None \<Rightarrow> DEFAULT_FIELDS cfg
      | Some f \<Rightarrow> if f \<noteq> [] then split_char (CHR '','') f else DEFAULT_FIELDS cfg)"

text \<open>The result of the two generic lookups is the dictionary under the key
  \<open>data\<close> of the response.\<close>

definition get_by_phone ::
  "config \<Rightarrow> store \<Rightarrow> string \<Rightarrow> string option \<Rightarrow> http_error + (string \<rightharpoonup> string)" where
  "get_by_phone cfg st phone fields_arg =
     (let normalized_phone = normalize_phone phone
      in case phone_idx st normalized_phone of
           None \<Rightarrow> Inl (NotFound (''Phone number not found: '' @ normalized_phone))
         | Some i \<Rightarrow>
             (case loc (df st) i of
                None \<Rightarrow> Inl (InternalError ''Internal error retrieving phone data'')
              | Some rec \<Rightarrow> Inr (slice_row rec (wanted_fields cfg fields_arg))))"

definition get_by_contract ::
  "config \<Rightarrow> store \<Rightarrow> string \<Rightarrow> string option \<Rightarrow> http_error + (string \<rightharpoonup> string)" where
  "get_by_contract cfg st contract_code fields_arg =
     (if contract_code = [] then Inl (BadRequest ''Contract code is required'')
      else case contract_idx st contract_code of
             None \<Rightarrow> Inl (NotFound ''Contract code not found'')
           | Some i \<Rightarrow>
               (case loc (df st) i of
                  None \<Rightarrow> Inl (InternalError ''Internal error retrieving contract data'')
                | Some rec \<Rightarrow> Inr (slice_row rec (wanted_fields cfg fields_arg))))"

section \<open>Single-field accessors\<close>

text \<open>
  The result of a numeric accessor is the one entry of its response, the field name and
  the integer. Between fetching the row and answering, any exception (a missing row label,
  a \<open>ValueError\<close> of \<open>int\<close>) is caught and turned into the abort with status 500.
  None of these handlers tests the contract code for emptiness.
\<close>

definition get_num_tec :: "store \<Rightarrow> string \<Rightarrow> http_error + (string \<times> int)" where
  "get_num_tec st contract_code =
     (case contract_idx st contract_code of
        None \<Rightarrow> Inl (NotFound ''Contract code not found'')
      | Some i \<Rightarrow>
          (case loc (df st) i of
             None \<Rightarrow> Inl (InternalError ''Internal error retrieving numTec'')
           | Some rec \<Rightarrow>
               (case py_int (series_get rec ''num_contact_tec'' (PyInt 0)) of
                  None \<Rightarrow> Inl (InternalError ''Internal error retrieving numTec'')
                | Some val \<Rightarrow> Inr (''num_contact_tec'', val))))"

definition get_num_amm :: "store \<Rightarrow> string \<Rightarrow> http_error + (string \<times> int)" where
  "get_num_amm st contract_code =
     (case contract_idx st contract_code of
        None \<Rightarrow> Inl (NotFound ''Contract code not found'')
      | Some i \<Rightarrow>
          (case loc (df st) i of
             None \<Rightarrow> Inl (InternalError ''Internal error retrieving numAmm'')
           | Some rec \<Rightarrow>
               (case py_int (series_get rec ''num_contact_amm'' (PyInt 0)) of
                  None \<Rightarrow> Inl (InternalError ''Internal error retrieving numAmm'')
                | Some val \<Rightarrow> Inr (''num_contact_amm'', val))))"

definition get_wifi_active :: "store \<Rightarrow> string \<Rightarrow> http_error + (string \<times> int)" where
  "get_wifi_active st contract_code =
     (case contract_idx st contract_code of
        None \<Rightarrow> Inl (NotFound ''Contract code not found'')
      | Some i \<Rightarrow>
          (case loc (df st) i of
             None \<Rightarrow> Inl (InternalError ''Internal error retrieving wifiActive'')
           | Some rec \<Rightarrow>
               (case py_int (series_get rec ''bb_active'' (PyInt 0)) of
                  None \<Rightarrow> Inl (InternalError ''Internal error retrieving wifiActive'')
                | Some val \<Rightarrow> Inr (''bb_active'', val))))"

text \<open>\<open>user_name\<close> is answered as stored, with the empty string when the record has
  no such field.\<close>

definition get_user_name :: "store \<Rightarrow> string \<Rightarrow> http_error + (string \<times> pyval)" where
  "get_user_name st contract_code =
     (case contract_idx st contract_code of
        None \<Rightarrow> Inl (NotFound ''Contract code not found'')
      | Some i \<Rightarrow>
          (case loc (df st) i of
             None \<Rightarrow> Inl (InternalError ''Internal error retrieving userName'')
           | Some rec \<Rightarrow> Inr (''user_name'', series_get rec ''user_name'' (PyStr []))))"

definition get_num_tec_by_phone :: "store \<Rightarrow> string \<Rightarrow> http_error + (string \<times> int)" where
  "get_num_tec_by_phone st phone =
     (let normalized_phone = normalize_phone phone
      in case phone_idx st normalized_phone of
           None \<Rightarrow> Inl (NotFound ''Phone number not found'')
         | Some i \<Rightarrow>
             (case loc (df st) i of
                None \<Rightarrow> Inl (InternalError ''Internal error retrieving numTec'')
              | Some rec \<Rightarrow>
                  (case py_int (series_get rec ''num_contact_tec'' (PyInt 0)) of
                     None \<Rightarrow> Inl (InternalError ''Internal error retrieving numTec'')
                   | Some val \<Rightarrow> Inr (''num_contact_tec'', val))))"

definition get_num_amm_by_phone :: "store \<Rightarrow> string \<Rightarrow> http_error + (string \<times> int)" where
  "get_num_amm_by_phone st phone =
     (let normalized_phone = normalize_phone phone
      in case phone_idx st normalized_phone of
           None \<Rightarrow> Inl (NotFound ''Phone number not found'')
         | Some i \<Rightarrow>
             (case loc (df st) i of
                None \<Rightarrow> Inl (InternalError ''Internal error retrieving numAmm'')
              | Some rec \<Rightarrow>
                  (case py_int (series_get rec ''num_contact_amm'' (PyInt 0)) of
                     None \<Rightarrow> Inl (InternalError ''Internal error retrieving numAmm'')
                   | Some val \<Rightarrow> Inr (''num_contact_amm'', val))))"

definition get_wifi_active_by_phone :: "store \<Rightarrow> string \<Rightarrow> http_error + (string \<times> int)" where
  "get_wifi_active_by_phone st phone =
     (let normalized_phone = normalize_phone phone
      in case phone_idx st normalized_phone of
           None \<Rightarrow> Inl (NotFound ''Phone number not found'')
         | Some i \<Rightarrow>
             (case loc (df st) i of
                None \<Rightarrow> Inl (InternalError ''Internal error retrieving wifiActive'')
              | Some rec \<Rightarrow>
                  (case py_int (series_get rec ''bb_active'' (PyInt 0)) of
                     None \<Rightarrow> Inl (InternalError ''Internal error retrieving wifiActive'')
                   | Some val \<Rightarrow> Inr (''bb_active'', val))))"

definition get_user_name_by_phone :: "store \<Rightarrow> string \<Rightarrow> http_error + (string \<times> pyval)" where
  "get_user_name_by_phone st phone =
     (let normalized_phone = normalize_phone phone
      in case phone_idx st normalized_phone of
           None \<Rightarrow> Inl (NotFound ''Phone number not found'')
         | Some i \<Rightarrow>
             (case loc (df st) i of
                None \<Rightarrow> Inl (InternalError ''Internal error retrieving userName'')
              | Some rec \<Rightarrow> Inr (''user_name'', series_get rec ''user_name'' (PyStr []))))"

text \<open>The string a record stores under a field, \<open>None\<close> when the record has no such
  field: the view of row \<open>i\<close> that the accessors read.\<close>

definition stored_field :: "store \<Rightarrow> nat \<Rightarrow> string \<Rightarrow> string option" where
  "stored_field st i name =
     (if name \<in> set (columns (df st)) then Some ((rows (df st) ! i) name) else None)"

section \<open>Sample data\<close>

text \<open>
  A frame of three rows. Rows 0 and 2 hold the same phone number in two spellings; row 1
  has an empty contract cell. The frame has no column \<open>bb_active\<close>.
\<close>

definition demo_columns :: "string list" where
  "demo_columns = [''phone_number'', ''contract_code'', ''platform'', ''status'',
     ''average_arpu'', ''service_type'', ''activation_date'', ''num_contact_tec'',
     ''num_contact_amm'', ''user_name'']"

definition demo_row :: "string \<Rightarrow> string \<Rightarrow> string \<Rightarrow> string \<Rightarrow> string \<Rightarrow> string \<Rightarrow> string" where
  "demo_row phone code tec amm user =
     (\<lambda>c. if c = ''phone_number'' then phone
          else if c = ''contract_code'' then code
          else if c = ''num_contact_tec'' then tec
          else if c = ''num_contact_amm'' then amm
          else if c = ''user_name'' then user
          else if c = ''platform'' then ''fiber''
          else [])"

definition demo_frame :: dataframe where
  "demo_frame =
     \<lparr>columns = demo_columns,
      rows = [demo_row ''0039 347-1234567'' ''C001'' ''3'' [] ''Rossi'',
              demo_row ''3331112222'' [] ''12'' ''abc'' ''Bianchi'',
              demo_row ''+39 347 1234567'' ''C003'' '' -7 '' ''1_000'' ''Verdi'']\<rparr>"

definition demo_store :: store where
  "demo_store = projr (load_data default_config (Inr demo_frame))"

text \<open>A frame of fifty equal rows, so that the patch of row 49 applies.\<close>

definition frame50 :: dataframe where
  "frame50 =
     \<lparr>columns = demo_columns,
      rows = replicate 50 (demo_row ''111'' ''C001'' ''0'' ''0'' ''Rossi'')\<rparr>"

definition store50 :: store where
  "store50 = projr (load_data default_config (Inr frame50))"

section \<open>Properties of the phone normalizer\<close>

lemma phone_char_not_space: "phone_char c \<Longrightarrow> \<not> is_space c"
  by (auto simp: phone_char_def is_digit_def is_space_def)

lemma phone_char_not_sep: "phone_char c \<Longrightarrow> c \<noteq> CHR ''-'' \<and> c \<noteq> CHR '' ''"
  by (auto simp: phone_char_def is_digit_def)

lemma newline_not_phone_char: "\<not> phone_char (CHR 0x0A)"
  by (simp add: phone_char_def is_digit_def)

lemma plus_phone_char: "phone_char (CHR ''+'')"
  by (simp add: phone_char_def)

lemma dropWhile_space_phone:
  "s \<noteq> [] \<Longrightarrow> phone_char (hd s) \<Longrightarrow> dropWhile is_space s = s"
  by (cases s) (simp_all add: phone_char_not_space)

text \<open>On a non-empty run of class characters, with or without a final line feed,
  cleaning leaves exactly the run.\<close>

lemma strip_phone_chars:
  assumes "s \<noteq> []" "list_all phone_char s"
  shows "strip s = s" and "strip (s @ [CHR 0x0A]) = s"
proof -
  from assms have h: "phone_char (hd s)" by (cases s) simp_all
  from assms have l: "phone_char (last s)"
    by (simp add: list_all_iff)
  have r: "dropWhile is_space (rev s) = rev s"
    using assms l by (intro dropWhile_space_phone) (simp_all add: hd_rev)
  show "strip s = s"
    using assms h r by (simp add: strip_def dropWhile_space_phone)
  have "dropWhile is_space (s @ [CHR 0x0A]) = s @ [CHR 0x0A]"
    using assms h by (intro dropWhile_space_phone) simp_all
  moreover have "is_space (CHR 0x0A)" by (simp add: is_space_def)
  ultimately show "strip (s @ [CHR 0x0A]) = s"
    using r by (simp add: strip_def)
qed

lemma remove_sep_phone_chars:
  "list_all phone_char s \<Longrightarrow> remove_char (CHR ''-'') (remove_char (CHR '' '') s) = s"
  by (induction s) (auto simp: remove_char_def dest: phone_char_not_sep)

lemma match_phone_chars:
  assumes "s \<noteq> []" "list_all phone_char s"
  shows "PHONE_REGEX_match s"
proof -
  from assms have "phone_char (last s)" by (simp add: list_all_iff)
  then have "last s \<noteq> CHR 0x0A" using newline_not_phone_char by metis
  then show ?thesis using assms by (simp add: PHONE_REGEX_match_def)
qed

text \<open>A string the pattern accepts is a non-empty run of class characters, possibly
  followed by one line feed.\<close>

lemma match_cases:
  assumes "PHONE_REGEX_match x"
  obtains s where "s \<noteq> []" "list_all phone_char s" "x = s \<or> x = s @ [CHR 0x0A]"
proof (cases "x \<noteq> [] \<and> last x = CHR 0x0A")
  case True
  with assms have "butlast x \<noteq> []" "list_all phone_char (butlast x)"
    by (simp_all add: PHONE_REGEX_match_def Let_def)
  moreover from True have "x = butlast x @ [CHR 0x0A]"
    by (metis append_butlast_last_id)
  ultimately show ?thesis using that by blast
next
  case False
  with assms have "x \<noteq> []" "list_all phone_char x"
    by (simp_all add: PHONE_REGEX_match_def Let_def)
  then show ?thesis using that by blast
qed

lemma normalize_phone_chars:
  assumes "s \<noteq> []" "list_all phone_char s"
  shows "normalize_phone s = prefix_rules s"
    and "normalize_phone (s @ [CHR 0x0A]) = prefix_rules s"
  using assms
  by (simp_all add: normalize_phone_def strip_phone_chars remove_sep_phone_chars
      match_phone_chars prefix_rules_def)

lemma startswith_plus: "startswith s ''+'' \<Longrightarrow> s \<noteq> [] \<and> hd s = CHR ''+''"
  by (cases s) (simp_all add: startswith_def)

text \<open>Every rule produces a run of class characters that starts with a plus sign, and
  such a run is left as it is by the rules.\<close>

lemma prefix_rules_plus:
  assumes "list_all phone_char s"
  shows "prefix_rules s \<noteq> []" "list_all phone_char (prefix_rules s)"
    "hd (prefix_rules s) = CHR ''+''"
proof -
  have d: "list_all phone_char (drop 2 s)"
    using assms by (auto simp: list_all_iff dest: in_set_dropD)
  show "prefix_rules s \<noteq> []"
    by (auto simp: prefix_rules_def dest: startswith_plus)
  show "list_all phone_char (prefix_rules s)"
    using assms d by (simp add: prefix_rules_def plus_phone_char)
  show "hd (prefix_rules s) = CHR ''+''"
    by (auto simp: prefix_rules_def dest: startswith_plus)
qed

lemma prefix_rules_fixed: "s \<noteq> [] \<Longrightarrow> hd s = CHR ''+'' \<Longrightarrow> prefix_rules s = s"
  by (cases s) (auto simp: prefix_rules_def startswith_def)

lemmas normalize_eval =
  normalize_phone_def strip_def remove_char_def is_space_def
  PHONE_REGEX_match_def phone_char_def is_digit_def startswith_def

text \<open>The four examples of the specification.\<close>

lemma normalize_phone_examples:
  "normalize_phone ''003471234567'' = ''+3471234567''"
  "normalize_phone ''+391234567'' = ''+391234567''"
  "normalize_phone ''391234567'' = ''+391234567''"
  "normalize_phone ''abc123'' = ''abc123''"
  by (simp_all add: normalize_eval)

text \<open>The function agrees with the normalizer of the specification on every input whose
  cleaned form does not end in a line feed.\<close>

lemma normalize_phone_refines_spec:
  assumes "remove_char (CHR ''-'') (remove_char (CHR '' '') (strip raw)) = cleaned"
    and "cleaned = [] \<or> last cleaned \<noteq> CHR 0x0A"
  shows "normalize_phone raw = normalize_spec raw"
  using assms
  by (auto simp: normalize_phone_def normalize_spec_def PHONE_REGEX_match_def
      spec_pattern_def Let_def)

text \<open>
  Claim C4. The normalizer is idempotent on every input that matches the digit/plus
  pattern: normalizing the result again gives the same result. The hypothesis is the
  pattern test of the code, which accepts every string the pattern of the specification
  describes.
\<close>

theorem normalize_phone_idempotent:
  assumes "PHONE_REGEX_match x"
  shows "normalize_phone (normalize_phone x) = normalize_phone x"
proof -
  from assms obtain s where s: "s \<noteq> []" "list_all phone_char s"
    and x: "x = s \<or> x = s @ [CHR 0x0A]"
    by (rule match_cases)
  from s x have n: "normalize_phone x = prefix_rules s"
    by (auto simp: normalize_phone_chars)
  have "normalize_phone (prefix_rules s) = prefix_rules (prefix_rules s)"
    using prefix_rules_plus [OF s(2)] by (intro normalize_phone_chars)
  also have "\<dots> = prefix_rules s"
    using prefix_rules_plus [OF s(2)] by (intro prefix_rules_fixed)
  finally show ?thesis by (simp add: n)
qed

theorem normalize_phone_idempotent_witness:
  "PHONE_REGEX_match ''00393471234567'' \<and>
   normalize_phone ''00393471234567'' = ''+393471234567'' \<and>
   normalize_phone (normalize_phone ''00393471234567'') = normalize_phone ''00393471234567''"
proof -
  have m: "PHONE_REGEX_match ''00393471234567''"
    by (simp add: PHONE_REGEX_match_def phone_char_def is_digit_def)
  have v: "normalize_phone ''00393471234567'' = ''+393471234567''"
    by (simp add: normalize_eval)
  show ?thesis
    using m v normalize_phone_idempotent [OF m] by simp
qed

text \<open>
  Claim C5. The normalizer cleans its input, returns a cleaned string that is not made of
  digits and plus signs unchanged, and otherwise applies the first matching prefix rule.
  The pattern test of the code also accepts a run of digits and plus signs followed by one
  line feed. On the input made of \<open>123\<close>, a line feed and a hyphen, the cleaned form is
  \<open>123\<close> followed by the line feed, which is not made of digits and plus signs only; the
  code prepends a plus sign to it, where the normalizer of the specification returns it
  unchanged.
\<close>

theorem normalize_phone_line_feed:
  "normalize_phone (''123'' @ [CHR 0x0A] @ ''-'') = ''+123'' @ [CHR 0x0A] \<and>
   normalize_spec (''123'' @ [CHR 0x0A] @ ''-'') = ''123'' @ [CHR 0x0A]"
  by (simp add: normalize_eval normalize_spec_def spec_pattern_def)

section \<open>Properties of loading and indexing\<close>

text \<open>Appending a value to the column adds one entry, replacing the entry of an equal
  earlier value.\<close>

lemma build_index_snoc:
  "build_index (vals @ [v]) = (build_index vals)(v \<mapsto> length vals)"
  by (simp add: build_index_def enumerate_append_eq)

lemma build_index_Nil: "build_index [] = Map.empty"
  by (simp add: build_index_def)

lemma build_index_characterised:
  "build_index vals k = Some i \<longleftrightarrow>
     i < length vals \<and> vals ! i = k \<and> (\<forall>j. i < j \<and> j < length vals \<longrightarrow> vals ! j \<noteq> k)"
proof (induction vals arbitrary: i rule: rev_induct)
  case Nil
  show ?case by (simp add: build_index_Nil)
next
  case (snoc v vals)
  show ?case
  proof (cases "k = v")
    case True
    have "(length vals = i) \<longleftrightarrow>
        (i < Suc (length vals) \<and> (vals @ [v]) ! i = v \<and>
         (\<forall>j. i < j \<and> j < Suc (length vals) \<longrightarrow> (vals @ [v]) ! j \<noteq> v))"
    proof
      assume "length vals = i"
      then show "i < Suc (length vals) \<and> (vals @ [v]) ! i = v \<and>
         (\<forall>j. i < j \<and> j < Suc (length vals) \<longrightarrow> (vals @ [v]) ! j \<noteq> v)"
        by auto
    next
      assume r: "i < Suc (length vals) \<and> (vals @ [v]) ! i = v \<and>
         (\<forall>j. i < j \<and> j < Suc (length vals) \<longrightarrow> (vals @ [v]) ! j \<noteq> v)"
      show "length vals = i"
      proof (rule ccontr)
        assume "length vals \<noteq> i"
        with r have "i < length vals" by simp
        with r have "(vals @ [v]) ! length vals \<noteq> v" by blast
        then show False by simp
      qed
    qed
    with True show ?thesis
      by (simp add: build_index_snoc)
  next
    case False
    have "(i < length vals \<and> vals ! i = k \<and> (\<forall>j. i < j \<and> j < length vals \<longrightarrow> vals ! j \<noteq> k)) \<longleftrightarrow>
        (i < Suc (length vals) \<and> (vals @ [v]) ! i = k \<and>
         (\<forall>j. i < j \<and> j < Suc (length vals) \<longrightarrow> (vals @ [v]) ! j \<noteq> k))"
      using False by (auto simp: nth_append less_Suc_eq)
    with False snoc show ?thesis
      by (simp add: build_index_snoc)
  qed
qed

lemma build_index_range: "build_index vals k = Some i \<Longrightarrow> i < length vals"
  by (simp add: build_index_characterised)

lemma build_index_dom: "build_index vals k = None \<longleftrightarrow> k \<notin> set vals"
proof (induction vals rule: rev_induct)
  case Nil
  show ?case by (simp add: build_index_Nil)
next
  case (snoc v vals)
  then show ?case by (simp add: build_index_snoc)
qed

text \<open>What a successful load has checked and what it has done to the frame.\<close>

lemma load_data_Inr:
  assumes "load_data cfg csv = Inr st"
  obtains d0 where "csv = Inr d0"
    and "PHONE_COL cfg \<in> set (columns d0)"
    and "CONTRACT_COL cfg \<in> set (columns d0)"
    and "set (DEFAULT_FIELDS cfg) \<subseteq> set (columns d0)"
    and "columns (df st) = columns d0"
    and "length (rows (df st)) = length (rows d0)"
    and "phone_idx st = build_index (column (df st) (PHONE_COL cfg))"
    and "contract_idx st = build_index (column (df st) (CONTRACT_COL cfg))"
    and "\<And>i. i < length (rows d0) \<Longrightarrow> i \<noteq> 49 \<Longrightarrow>
           rows (df st) ! i = (rows d0 ! i)(PHONE_COL cfg := normalize_phone ((rows d0 ! i) (PHONE_COL cfg)))"
    and "49 < length (rows d0) \<Longrightarrow>
           rows (df st) ! 49 = (rows d0 ! 49)(PHONE_COL cfg := normalize_phone ((rows d0 ! 49) (PHONE_COL cfg)),
               CONTRACT_COL cfg := ''1234566789'', PHONE_COL cfg := normalize_phone ''+393478933194'')"
proof -
  from assms obtain d0 where csv: "csv = Inr d0"
    by (cases csv) (auto simp: load_data_def split: read_error.splits)
  have cols: "columns (apply_column c f d) = columns d" for c f d
    by (simp add: apply_column_def)
  from assms csv have req: "filter (\<lambda>col. col \<notin> set (columns d0))
      ([PHONE_COL cfg, CONTRACT_COL cfg] @ DEFAULT_FIELDS cfg) = []"
    by (auto simp: load_data_def Let_def cols split: if_splits)
  then have P: "PHONE_COL cfg \<in> set (columns d0)"
    and C: "CONTRACT_COL cfg \<in> set (columns d0)"
    and D: "set (DEFAULT_FIELDS cfg) \<subseteq> set (columns d0)"
    by (auto simp: filter_empty_conv split: if_splits)
  define d1 where "d1 = apply_column (PHONE_COL cfg) normalize_phone d0"
  define d2 where "d2 = (if length (rows d1) > 49
                           then set_cells 49 (CONTRACT_COL cfg) ''1234566789''
                                  (PHONE_COL cfg) (normalize_phone ''+393478933194'') d1
                           else d1)"
  from assms csv P req have st: "st = \<lparr>df = d2,
                         phone_idx = build_index (column d2 (PHONE_COL cfg)),
                         contract_idx = build_index (column d2 (CONTRACT_COL cfg))\<rparr>"
    by (auto simp: load_data_def Let_def cols d1_def d2_def split: if_splits)
  have r1: "rows d1 = map (\<lambda>r. r(PHONE_COL cfg := normalize_phone (r (PHONE_COL cfg)))) (rows d0)"
    by (simp add: d1_def apply_column_def)
  have c2: "columns d2 = columns d0"
    by (simp add: d2_def d1_def set_cells_def apply_column_def)
  have r2: "rows d2 = (if length (rows d0) > 49 then (rows d1)[49 := (rows d1 ! 49)(CONTRACT_COL cfg := ''1234566789'',
                  PHONE_COL cfg := normalize_phone ''+393478933194'')] else rows d1)"
    by (simp add: d2_def set_cells_def r1)
  show thesis
  proof (rule that [OF csv P C D])
    show "columns (df st) = columns d0" by (simp add: st c2)
    show "length (rows (df st)) = length (rows d0)" by (simp add: st r2 r1)
    show "phone_idx st = build_index (column (df st) (PHONE_COL cfg))" by (simp add: st)
    show "contract_idx st = build_index (column (df st) (CONTRACT_COL cfg))" by (simp add: st)
    show "rows (df st) ! i = (rows d0 ! i)(PHONE_COL cfg := normalize_phone ((rows d0 ! i) (PHONE_COL cfg)))"
      if "i < length (rows d0)" "i \<noteq> 49" for i
      using that by (simp add: st r2 r1)
    show "rows (df st) ! 49 = (rows d0 ! 49)(PHONE_COL cfg := normalize_phone ((rows d0 ! 49) (PHONE_COL cfg)),
               CONTRACT_COL cfg := ''1234566789'', PHONE_COL cfg := normalize_phone ''+393478933194'')"
      if "49 < length (rows d0)"
      using that by (simp add: st r2 r1)
  qed
qed

lemma load_data_succeeds:
  assumes "set ([PHONE_COL cfg, CONTRACT_COL cfg] @ DEFAULT_FIELDS cfg) \<subseteq> set (columns d0)"
  shows "\<exists>st. load_data cfg (Inr d0) = Inr st"
proof -
  have "filter (\<lambda>col. col \<notin> set (columns d0))
      ([PHONE_COL cfg, CONTRACT_COL cfg] @ DEFAULT_FIELDS cfg) = []"
    using assms by (auto simp: filter_empty_conv)
  then show ?thesis
    using assms by (simp add: load_data_def Let_def apply_column_def)
qed

text \<open>A frame of at most 49 rows is loaded with its phone column normalized and nothing
  else changed.\<close>

lemma load_data_rows_unpatched:
  assumes "load_data cfg (Inr d0) = Inr st" "length (rows d0) \<le> 49"
  shows "rows (df st) =
     map (\<lambda>r. r(PHONE_COL cfg := normalize_phone (r (PHONE_COL cfg)))) (rows d0)"
proof (rule nth_equalityI)
  show "length (rows (df st)) =
      length (map (\<lambda>r. r(PHONE_COL cfg := normalize_phone (r (PHONE_COL cfg)))) (rows d0))"
    by (rule load_data_Inr [OF assms(1)]) simp
next
  fix i assume "i < length (rows (df st))"
  then have i: "i < length (rows d0)"
    by (rule_tac load_data_Inr [OF assms(1)]) simp
  with assms(2) have "i \<noteq> 49" by simp
  with i show "rows (df st) ! i =
      map (\<lambda>r. r(PHONE_COL cfg := normalize_phone (r (PHONE_COL cfg)))) (rows d0) ! i"
    by (rule_tac load_data_Inr [OF assms(1)]) simp
qed

text \<open>The positions stored in either index are positions of rows.\<close>

lemma index_position_valid:
  assumes "load_data cfg csv = Inr st"
    and "phone_idx st k = Some i \<or> contract_idx st k = Some i"
  shows "i < length (rows (df st))"
proof (rule load_data_Inr [OF assms(1)])
  assume "phone_idx st = build_index (column (df st) (PHONE_COL cfg))"
    and "contract_idx st = build_index (column (df st) (CONTRACT_COL cfg))"
  with assms(2) show ?thesis
    by (auto simp: column_def dest: build_index_range)
qed

section \<open>Facts about the sample data\<close>

lemma default_config_simps:
  "PHONE_COL default_config = ''phone_number''"
  "CONTRACT_COL default_config = ''contract_code''"
  "DEFAULT_FIELDS default_config = [''contract_code'', ''platform'', ''status'',
     ''average_arpu'', ''service_type'', ''activation_date'']"
  by (simp_all add: default_config_def)

lemma demo_required:
  "set ([PHONE_COL default_config, CONTRACT_COL default_config] @ DEFAULT_FIELDS default_config)
     \<subseteq> set demo_columns"
  by (simp add: default_config_simps demo_columns_def)

lemma demo_loaded: "load_data default_config (Inr demo_frame) = Inr demo_store"
proof -
  have "columns demo_frame = demo_columns" by (simp add: demo_frame_def)
  with demo_required load_data_succeeds [of default_config demo_frame]
  obtain st where "load_data default_config (Inr demo_frame) = Inr st" by auto
  then show ?thesis by (simp add: demo_store_def)
qed

lemma frame50_loaded: "load_data default_config (Inr frame50) = Inr store50"
proof -
  have "columns frame50 = demo_columns" by (simp add: frame50_def)
  with demo_required load_data_succeeds [of default_config frame50]
  obtain st where "load_data default_config (Inr frame50) = Inr st" by auto
  then show ?thesis by (simp add: store50_def)
qed

lemma demo_cols: "columns (df demo_store) = demo_columns"
  by (rule load_data_Inr [OF demo_loaded]) (simp add: demo_frame_def)

lemma demo_rows:
  "rows (df demo_store) =
     [demo_row ''+393471234567'' ''C001'' ''3'' [] ''Rossi'',
      demo_row ''+3331112222'' [] ''12'' ''abc'' ''Bianchi'',
      demo_row ''+393471234567'' ''C003'' '' -7 '' ''1_000'' ''Verdi'']"
proof -
  have n: "normalize_phone ''0039 347-1234567'' = ''+393471234567''"
    "normalize_phone ''3331112222'' = ''+3331112222''"
    "normalize_phone ''+39 347 1234567'' = ''+393471234567''"
    by (simp_all add: normalize_eval)
  have u: "(demo_row p c t a u)(''phone_number'' := q) = demo_row q c t a u" for p c t a u q
    by (rule ext) (simp add: demo_row_def)
  have "rows (df demo_store) =
     map (\<lambda>r. r(''phone_number'' := normalize_phone (r ''phone_number''))) (rows demo_frame)"
    using load_data_rows_unpatched [OF demo_loaded]
    by (simp add: demo_frame_def default_config_simps)
  also have "\<dots> = [demo_row ''+393471234567'' ''C001'' ''3'' [] ''Rossi'',
      demo_row ''+3331112222'' [] ''12'' ''abc'' ''Bianchi'',
      demo_row ''+393471234567'' ''C003'' '' -7 '' ''1_000'' ''Verdi'']"
    unfolding demo_frame_def
    by (simp add: u n) (simp add: demo_row_def n)
  finally show ?thesis .
qed

lemma demo_phone_idx:
  "phone_idx demo_store = build_index [''+393471234567'', ''+3331112222'', ''+393471234567'']"
  by (rule load_data_Inr [OF demo_loaded])
    (simp add: column_def demo_rows default_config_simps demo_row_def)

lemma demo_contract_idx:
  "contract_idx demo_store = build_index [''C001'', [], ''C003'']"
  by (rule load_data_Inr [OF demo_loaded])
    (simp add: column_def demo_rows default_config_simps demo_row_def)

lemma demo_lookups:
  "phone_idx demo_store ''+393471234567'' = Some 2"
  "phone_idx demo_store ''+3331112222'' = Some 1"
  "phone_idx demo_store ''+999'' = None"
  "contract_idx demo_store ''C001'' = Some 0"
  "contract_idx demo_store [] = Some 1"
  "contract_idx demo_store ''C003'' = Some 2"
  "contract_idx demo_store ''C999'' = None"
  by (simp_all add: demo_phone_idx demo_contract_idx build_index_def)

lemma int_of_str_examples:
  "int_of_str [] = None"
  "int_of_str ''abc'' = None"
  "int_of_str ''3'' = Some 3"
  "int_of_str ''12'' = Some 12"
  "int_of_str '' -7 '' = Some (- 7)"
  "int_of_str ''1_000'' = Some 1000"
  by (simp_all add: int_of_str_def is_int_space_def is_digit_def decimal_value_def
      digit_value_def remove_char_def int_max_str_digits_def)

text \<open>The bound on the number of digits: 4300 digits convert, 4301 do not.\<close>

lemma int_of_str_too_long:
  "int_of_str (replicate 4300 (CHR ''1'')) \<noteq> None"
  "int_of_str (replicate 4301 (CHR ''1'')) = None"
proof -
  have d: "digits_ok (replicate (Suc n) (CHR ''1''))" for n
    by (induction n) (simp_all add: is_digit_def)
  have "digits_ok (replicate 4300 (CHR ''1''))"
    using d [of 4299] by simp
  then show "int_of_str (replicate 4300 (CHR ''1'')) \<noteq> None"
    by (simp add: int_of_str_def is_int_space_def remove_char_def int_max_str_digits_def
        Let_def)
  show "int_of_str (replicate 4301 (CHR ''1'')) = None"
    by (simp add: int_of_str_def is_int_space_def remove_char_def int_max_str_digits_def
        Let_def)
qed

section \<open>Claims about loading and indexing\<close>

text \<open>
  Claim C6. Index building is deterministic and last-wins. In a loaded store, the Phone
  Index maps a key to a position exactly when that position is the last row, in file
  order, whose phone column holds the key, and the Contract Index does the same with the
  contract column; so when two rows share a key the index holds the position of the later
  one. Loading the same source data again yields the same two mappings.
\<close>

theorem index_last_wins:
  assumes "load_data cfg csv = Inr st"
  shows "(phone_idx st k = Some i \<longleftrightarrow>
            i < length (rows (df st)) \<and> (rows (df st) ! i) (PHONE_COL cfg) = k \<and>
            (\<forall>j. i < j \<and> j < length (rows (df st)) \<longrightarrow> (rows (df st) ! j) (PHONE_COL cfg) \<noteq> k))
       \<and> (contract_idx st k = Some i \<longleftrightarrow>
            i < length (rows (df st)) \<and> (rows (df st) ! i) (CONTRACT_COL cfg) = k \<and>
            (\<forall>j. i < j \<and> j < length (rows (df st)) \<longrightarrow> (rows (df st) ! j) (CONTRACT_COL cfg) \<noteq> k))
       \<and> (\<forall>st'. load_data cfg csv = Inr st' \<longrightarrow>
            phone_idx st' = phone_idx st \<and> contract_idx st' = contract_idx st)"
proof -
  have c: "build_index (column d col) k = Some i \<longleftrightarrow>
            i < length (rows d) \<and> (rows d ! i) col = k \<and>
            (\<forall>j. i < j \<and> j < length (rows d) \<longrightarrow> (rows d ! j) col \<noteq> k)" for d col
    unfolding build_index_characterised by (auto simp: column_def)
  have p: "phone_idx st = build_index (column (df st) (PHONE_COL cfg))"
    by (rule load_data_Inr [OF assms])
  have q: "contract_idx st = build_index (column (df st) (CONTRACT_COL cfg))"
    by (rule load_data_Inr [OF assms])
  show ?thesis
    using assms by (simp add: p q c)
qed

theorem index_last_wins_witness:
  "load_data default_config (Inr demo_frame) = Inr demo_store \<and>
   (rows (df demo_store) ! 0) (PHONE_COL default_config) = ''+393471234567'' \<and>
   (rows (df demo_store) ! 2) (PHONE_COL default_config) = ''+393471234567'' \<and>
   phone_idx demo_store ''+393471234567'' = Some 2 \<and>
   contract_idx demo_store ''C001'' = Some 0"
proof -
  have r: "(rows (df demo_store) ! 0) (PHONE_COL default_config) = ''+393471234567''"
    "(rows (df demo_store) ! 2) (PHONE_COL default_config) = ''+393471234567''"
    "(rows (df demo_store) ! 0) (CONTRACT_COL default_config) = ''C001''"
    "(rows (df demo_store) ! 1) (CONTRACT_COL default_config) \<noteq> ''C001''"
    "(rows (df demo_store) ! 2) (CONTRACT_COL default_config) \<noteq> ''C001''"
    "length (rows (df demo_store)) = 3"
    by (simp_all add: demo_rows demo_row_def default_config_simps)
  have a: "\<forall>j. 2 < j \<and> j < length (rows (df demo_store)) \<longrightarrow>
      (rows (df demo_store) ! j) (PHONE_COL default_config) \<noteq> ''+393471234567''"
    by (auto simp: r)
  have b: "\<forall>j. 0 < j \<and> j < length (rows (df demo_store)) \<longrightarrow>
      (rows (df demo_store) ! j) (CONTRACT_COL default_config) \<noteq> ''C001''"
  proof (intro allI impI)
    fix j assume "0 < j \<and> j < length (rows (df demo_store))"
    then have "j = 1 \<or> j = 2" using r(6) by auto
    then show "(rows (df demo_store) ! j) (CONTRACT_COL default_config) \<noteq> ''C001''"
      using r by auto
  qed
  from index_last_wins [OF demo_loaded, of "''+393471234567''" 2] a r
  have "phone_idx demo_store ''+393471234567'' = Some 2" by simp
  moreover from index_last_wins [OF demo_loaded, of "''C001''" 0] b r
  have "contract_idx demo_store ''C001'' = Some 0" by simp
  ultimately show ?thesis using demo_loaded r by simp
qed

text \<open>
  Claim C9. Every position stored as a value in the Phone Index or in the Contract Index
  of a loaded store is a row position of that store (a natural number below the number of
  rows), so fetching the record at that position succeeds and yields that row.
\<close>

theorem index_positions_are_rows:
  assumes "load_data cfg csv = Inr st"
  shows "(phone_idx st k = Some i \<longrightarrow>
            i < length (rows (df st)) \<and> loc (df st) i = Some (columns (df st), rows (df st) ! i))
       \<and> (contract_idx st k = Some i \<longrightarrow>
            i < length (rows (df st)) \<and> loc (df st) i = Some (columns (df st), rows (df st) ! i))"
  using index_position_valid [OF assms, of k i] by (simp add: loc_def)

theorem index_positions_are_rows_witness:
  "load_data default_config (Inr demo_frame) = Inr demo_store \<and>
   phone_idx demo_store ''+3331112222'' = Some 1 \<and>
   contract_idx demo_store ''C003'' = Some 2 \<and>
   loc (df demo_store) 1 = Some (columns (df demo_store), rows (df demo_store) ! 1) \<and>
   loc (df demo_store) 2 = Some (columns (df demo_store), rows (df demo_store) ! 2)"
  using index_positions_are_rows [OF demo_loaded, of "''+3331112222''" 1]
    index_positions_are_rows [OF demo_loaded, of "''C003''" 2]
    demo_loaded demo_lookups
  by simp

text \<open>
  Claim C2 says that in every row of the loaded store, row 49 under the patch included,
  the phone column holds the normalized raw phone value. That fails in row 49 of a frame
  of fifty rows whose raw phone value is \<open>111\<close>: the raw value normalizes to \<open>+111\<close>, and
  the loaded store holds the literal of the patch.
\<close>

theorem load_row_49_counterexample:
  "load_data default_config (Inr frame50) = Inr store50 \<and>
   length (rows (df store50)) = 50 \<and>
   (rows (df store50) ! 49) (PHONE_COL default_config) = ''+393478933194'' \<and>
   normalize_phone ((rows frame50 ! 49) (PHONE_COL default_config)) = ''+111'' \<and>
   (rows (df store50) ! 49) (PHONE_COL default_config)
     \<noteq> normalize_phone ((rows frame50 ! 49) (PHONE_COL default_config))"
proof -
  have l: "length (rows (df store50)) = 50"
    by (rule load_data_Inr [OF frame50_loaded]) (simp add: frame50_def)
  have "rows (df store50) ! 49 =
      (rows frame50 ! 49)(PHONE_COL default_config :=
           normalize_phone ((rows frame50 ! 49) (PHONE_COL default_config)),
         CONTRACT_COL default_config := ''1234566789'',
         PHONE_COL default_config := normalize_phone ''+393478933194'')"
    by (rule load_data_Inr [OF frame50_loaded]) (simp add: frame50_def)
  then have p: "(rows (df store50) ! 49) (PHONE_COL default_config) = ''+393478933194''"
    by (simp add: normalize_eval)
  have n: "normalize_phone ((rows frame50 ! 49) (PHONE_COL default_config)) = ''+111''"
    by (simp add: frame50_def demo_row_def default_config_simps normalize_eval)
  show ?thesis
    using frame50_loaded l p n by simp
qed

text \<open>
  Claim C2, amended. Loading keeps the number of rows. In every row other than row 49 the
  phone column of the loaded store holds the normalized raw phone value of that row. When
  the frame has more than 49 rows, row 49 holds the patch value \<open>+393478933194\<close> in its
  phone column instead, whatever its raw value was (for a phone column that is not also
  the contract column).
\<close>

theorem load_phone_column:
  assumes "load_data cfg (Inr d0) = Inr st"
  shows "length (rows (df st)) = length (rows d0)
       \<and> (\<forall>i < length (rows d0). i \<noteq> 49 \<longrightarrow>
            (rows (df st) ! i) (PHONE_COL cfg) = normalize_phone ((rows d0 ! i) (PHONE_COL cfg)))
       \<and> (49 < length (rows d0) \<longrightarrow> PHONE_COL cfg \<noteq> CONTRACT_COL cfg \<longrightarrow>
            (rows (df st) ! 49) (PHONE_COL cfg) = ''+393478933194'')"
proof (intro conjI allI impI)
  show "length (rows (df st)) = length (rows d0)"
    by (rule load_data_Inr [OF assms]) simp
next
  fix i assume "i < length (rows d0)" "i \<noteq> 49"
  then have "rows (df st) ! i =
      (rows d0 ! i)(PHONE_COL cfg := normalize_phone ((rows d0 ! i) (PHONE_COL cfg)))"
    by (rule_tac load_data_Inr [OF assms]) simp
  then show "(rows (df st) ! i) (PHONE_COL cfg) = normalize_phone ((rows d0 ! i) (PHONE_COL cfg))"
    by simp
next
  assume "49 < length (rows d0)"
  then have "rows (df st) ! 49 =
      (rows d0 ! 49)(PHONE_COL cfg := normalize_phone ((rows d0 ! 49) (PHONE_COL cfg)),
         CONTRACT_COL cfg := ''1234566789'',
         PHONE_COL cfg := normalize_phone ''+393478933194'')"
    by (rule_tac load_data_Inr [OF assms]) simp
  then show "(rows (df st) ! 49) (PHONE_COL cfg) = ''+393478933194''"
    by (simp add: normalize_eval)
qed

theorem load_phone_column_witness:
  "load_data default_config (Inr frame50) = Inr store50 \<and>
   (0::nat) < length (rows frame50) \<and> 49 < length (rows frame50) \<and>
   PHONE_COL default_config \<noteq> CONTRACT_COL default_config \<and>
   length (rows (df store50)) = 50 \<and>
   (rows (df store50) ! 0) (PHONE_COL default_config) = ''+111'' \<and>
   (rows (df store50) ! 49) (PHONE_COL default_config) = ''+393478933194''"
proof -
  have l: "length (rows frame50) = 50" by (simp add: frame50_def)
  have n: "normalize_phone ((rows frame50 ! 0) (PHONE_COL default_config)) = ''+111''"
    by (simp add: frame50_def demo_row_def default_config_simps normalize_eval)
  have d: "PHONE_COL default_config \<noteq> CONTRACT_COL default_config"
    by (simp add: default_config_simps)
  show ?thesis
    using load_phone_column [OF frame50_loaded] frame50_loaded l n d by simp
qed

section \<open>Claims about the generic lookups\<close>

text \<open>
  Claim C7. \<open>get_by_phone\<close> normalizes the raw phone first and fails with NotFound
  exactly when the normalized value is absent from the Phone Index. \<open>get_by_contract\<close>
  fails with BadRequest exactly when the code is empty, and, for a code that passed that
  test, with NotFound exactly when the code is absent from the Contract Index. Each of
  these failures is the error value alone, with its description and no record data.
\<close>

theorem generic_lookup_failures:
  "((\<exists>msg. get_by_phone cfg st phone fa = Inl (NotFound msg)) \<longleftrightarrow>
       phone_idx st (normalize_phone phone) = None)
   \<and> (phone_idx st (normalize_phone phone) = None \<longrightarrow>
       get_by_phone cfg st phone fa
         = Inl (NotFound (''Phone number not found: '' @ normalize_phone phone)))
   \<and> ((\<exists>msg. get_by_contract cfg st code fa = Inl (BadRequest msg)) \<longleftrightarrow> code = [])
   \<and> (code = [] \<longrightarrow>
       get_by_contract cfg st code fa = Inl (BadRequest ''Contract code is required''))
   \<and> ((\<exists>msg. get_by_contract cfg st code fa = Inl (NotFound msg)) \<longleftrightarrow>
       code \<noteq> [] \<and> contract_idx st code = None)
   \<and> (code \<noteq> [] \<and> contract_idx st code = None \<longrightarrow>
       get_by_contract cfg st code fa = Inl (NotFound ''Contract code not found''))"
  by (simp add: get_by_phone_def get_by_contract_def Let_def split: option.splits)

theorem generic_lookup_failures_witness:
  "phone_idx demo_store (normalize_phone '' 999 '') = None \<and>
   get_by_phone default_config demo_store '' 999 '' None
     = Inl (NotFound ''Phone number not found: +999'') \<and>
   get_by_contract default_config demo_store [] None
     = Inl (BadRequest ''Contract code is required'') \<and>
   ''C999'' \<noteq> [] \<and> contract_idx demo_store ''C999'' = None \<and>
   get_by_contract default_config demo_store ''C999'' None
     = Inl (NotFound ''Contract code not found'')"
proof -
  have n: "normalize_phone '' 999 '' = ''+999''"
    by (simp add: normalize_eval)
  show ?thesis
    using generic_lookup_failures [of default_config demo_store "'' 999 ''" None "[]"]
      generic_lookup_failures [of default_config demo_store "'' 999 ''" None "''C999''"]
      demo_lookups n
    by simp
qed

text \<open>A loaded store has every default field among its columns, so the projection on
  the default fields keeps each of them.\<close>

lemma load_data_default_fields:
  assumes "load_data cfg csv = Inr st"
  shows "set (DEFAULT_FIELDS cfg) \<subseteq> set (columns (df st))"
  by (rule load_data_Inr [OF assms]) simp

lemma slice_row_default_fields:
  assumes "set (DEFAULT_FIELDS cfg) \<subseteq> set cols"
  shows "slice_row (cols, r) (DEFAULT_FIELDS cfg)
       = (\<lambda>c. if c \<in> set (DEFAULT_FIELDS cfg) then Some (r c) else None)"
proof (rule ext)
  fix c
  show "slice_row (cols, r) (DEFAULT_FIELDS cfg) c
      = (if c \<in> set (DEFAULT_FIELDS cfg) then Some (r c) else None)"
    using assms by (auto simp: slice_row_def)
qed

text \<open>
  Claim C10. In both generic lookups a \<open>fields\<close> parameter that is supplied as the
  empty string is treated as an absent one: for a key that resolves in a loaded store, the
  output under the empty string and the output under no parameter are both the selection
  of exactly the configured default fields of the resolved row, not an empty selection;
  and for every key the two calls give the same result.
\<close>

theorem empty_fields_is_default:
  assumes "load_data cfg csv = Inr st"
  shows
   "(phone_idx st (normalize_phone phone) = Some i \<longrightarrow>
       get_by_phone cfg st phone (Some [])
         = Inr (\<lambda>c. if c \<in> set (DEFAULT_FIELDS cfg) then Some ((rows (df st) ! i) c) else None)
     \<and> get_by_phone cfg st phone None
         = Inr (\<lambda>c. if c \<in> set (DEFAULT_FIELDS cfg) then Some ((rows (df st) ! i) c) else None))
  \<and> (code \<noteq> [] \<and> contract_idx st code = Some j \<longrightarrow>
       get_by_contract cfg st code (Some [])
         = Inr (\<lambda>c. if c \<in> set (DEFAULT_FIELDS cfg) then Some ((rows (df st) ! j) c) else None)
     \<and> get_by_contract cfg st code None
         = Inr (\<lambda>c. if c \<in> set (DEFAULT_FIELDS cfg) then Some ((rows (df st) ! j) c) else None))
  \<and> wanted_fields cfg (Some []) = DEFAULT_FIELDS cfg
  \<and> wanted_fields cfg None = DEFAULT_FIELDS cfg
  \<and> get_by_phone cfg st phone (Some []) = get_by_phone cfg st phone None
  \<and> get_by_contract cfg st code (Some []) = get_by_contract cfg st code None"
proof -
  have w: "wanted_fields cfg (Some []) = DEFAULT_FIELDS cfg"
    "wanted_fields cfg None = DEFAULT_FIELDS cfg"
    by (simp_all add: wanted_fields_def)
  have s: "slice_row (columns (df st), r) (DEFAULT_FIELDS cfg)
       = (\<lambda>c. if c \<in> set (DEFAULT_FIELDS cfg) then Some (r c) else None)" for r
    by (rule slice_row_default_fields [OF load_data_default_fields [OF assms]])
  have l: "loc (df st) k = Some (columns (df st), rows (df st) ! k)"
    if "phone_idx st key = Some k \<or> contract_idx st key = Some k" for key k
    using index_position_valid [OF assms that] by (simp add: loc_def)
  have p: "get_by_phone cfg st phone fa
         = Inr (\<lambda>c. if c \<in> set (DEFAULT_FIELDS cfg) then Some ((rows (df st) ! i) c) else None)"
    if "phone_idx st (normalize_phone phone) = Some i" "wanted_fields cfg fa = DEFAULT_FIELDS cfg"
    for fa
    using that l [of "normalize_phone phone" i] by (simp add: get_by_phone_def s)
  have c: "get_by_contract cfg st code fa
         = Inr (\<lambda>c. if c \<in> set (DEFAULT_FIELDS cfg) then Some ((rows (df st) ! j) c) else None)"
    if "code \<noteq> []" "contract_idx st code = Some j" "wanted_fields cfg fa = DEFAULT_FIELDS cfg"
    for fa
    using that l [of code j] by (simp add: get_by_contract_def s)
  have e: "get_by_phone cfg st phone (Some []) = get_by_phone cfg st phone None"
    "get_by_contract cfg st code (Some []) = get_by_contract cfg st code None"
    unfolding get_by_phone_def get_by_contract_def w by simp_all
  show ?thesis
    using w p c e by simp
qed

theorem empty_fields_is_default_witness:
  "load_data default_config (Inr demo_frame) = Inr demo_store \<and>
   phone_idx demo_store (normalize_phone ''3331112222'') = Some 1 \<and>
   ''C003'' \<noteq> [] \<and> contract_idx demo_store ''C003'' = Some 2 \<and>
   get_by_phone default_config demo_store ''3331112222'' (Some [])
     = Inr [''contract_code'' \<mapsto> [], ''platform'' \<mapsto> ''fiber'', ''status'' \<mapsto> [],
            ''average_arpu'' \<mapsto> [], ''service_type'' \<mapsto> [], ''activation_date'' \<mapsto> []] \<and>
   get_by_contract default_config demo_store ''C003'' (Some [])
     = Inr [''contract_code'' \<mapsto> ''C003'', ''platform'' \<mapsto> ''fiber'', ''status'' \<mapsto> [],
            ''average_arpu'' \<mapsto> [], ''service_type'' \<mapsto> [], ''activation_date'' \<mapsto> []] \<and>
   get_by_contract default_config demo_store ''C003'' None
     = get_by_contract default_config demo_store ''C003'' (Some [])"
proof -
  have n: "normalize_phone ''3331112222'' = ''+3331112222''"
    by (simp add: normalize_eval)
  have p: "phone_idx demo_store (normalize_phone ''3331112222'') = Some 1"
    by (simp add: n demo_lookups)
  have c: "''C003'' \<noteq> []" "contract_idx demo_store ''C003'' = Some 2"
    by (simp_all add: demo_lookups)
  note t = empty_fields_is_default [OF demo_loaded,
      where phone = "''3331112222''" and i = 1 and code = "''C003''" and j = 2]
  have m1: "(\<lambda>c. if c \<in> set (DEFAULT_FIELDS default_config)
                 then Some ((rows (df demo_store) ! 1) c) else None)
      = [''contract_code'' \<mapsto> [], ''platform'' \<mapsto> ''fiber'', ''status'' \<mapsto> [],
            ''average_arpu'' \<mapsto> [], ''service_type'' \<mapsto> [], ''activation_date'' \<mapsto> []]"
    by (rule ext) (simp add: default_config_simps demo_rows demo_row_def)
  have m2: "(\<lambda>c. if c \<in> set (DEFAULT_FIELDS default_config)
                 then Some ((rows (df demo_store) ! 2) c) else None)
      = [''contract_code'' \<mapsto> ''C003'', ''platform'' \<mapsto> ''fiber'', ''status'' \<mapsto> [],
            ''average_arpu'' \<mapsto> [], ''service_type'' \<mapsto> [], ''activation_date'' \<mapsto> []]"
    by (rule ext) (simp add: default_config_simps demo_rows demo_row_def)
  from t p have a: "get_by_phone default_config demo_store ''3331112222'' (Some [])
     = Inr [''contract_code'' \<mapsto> [], ''platform'' \<mapsto> ''fiber'', ''status'' \<mapsto> [],
            ''average_arpu'' \<mapsto> [], ''service_type'' \<mapsto> [], ''activation_date'' \<mapsto> []]"
    unfolding m1 by simp
  from t c have b: "get_by_contract default_config demo_store ''C003'' (Some [])
     = Inr [''contract_code'' \<mapsto> ''C003'', ''platform'' \<mapsto> ''fiber'', ''status'' \<mapsto> [],
            ''average_arpu'' \<mapsto> [], ''service_type'' \<mapsto> [], ''activation_date'' \<mapsto> []]"
    unfolding m2 by simp
  from t have e: "get_by_contract default_config demo_store ''C003'' None
     = get_by_contract default_config demo_store ''C003'' (Some [])"
    by simp
  from demo_loaded p c a b e show ?thesis
    by (intro conjI)
qed

text \<open>The three rows of the sample store, as fetched.\<close>

lemma demo_loc:
  "loc (df demo_store) 0 = Some (demo_columns, demo_row ''+393471234567'' ''C001'' ''3'' [] ''Rossi'')"
  "loc (df demo_store) (Suc 0) = Some (demo_columns, demo_row ''+3331112222'' [] ''12'' ''abc'' ''Bianchi'')"
  "loc (df demo_store) 2 = Some (demo_columns, demo_row ''+393471234567'' ''C003'' '' -7 '' ''1_000'' ''Verdi'')"
  by (simp_all add: loc_def demo_rows demo_cols)

text \<open>
  Claim C8 says that a phone key and a contract key that resolve to the same row position
  give identical output. Row 1 of the sample store has an empty contract cell, so the
  Contract Index maps the empty code to position 1, where the Phone Index maps
  \<open>+3331112222\<close>; the phone lookup returns the projection of the row and the contract
  lookup fails with BadRequest.
\<close>

theorem same_row_counterexample:
  "phone_idx demo_store (normalize_phone ''3331112222'') = Some 1 \<and>
   contract_idx demo_store [] = Some 1 \<and>
   get_by_phone default_config demo_store ''3331112222'' None
     = Inr (slice_row (columns (df demo_store), rows (df demo_store) ! 1)
              (DEFAULT_FIELDS default_config)) \<and>
   get_by_contract default_config demo_store [] None
     = Inl (BadRequest ''Contract code is required'')"
proof -
  have n: "normalize_phone ''3331112222'' = ''+3331112222''"
    by (simp add: normalize_eval)
  have l: "loc (df demo_store) (Suc 0) = Some (columns (df demo_store), rows (df demo_store) ! Suc 0)"
    by (simp add: loc_def demo_rows)
  show ?thesis
    by (simp add: n demo_lookups l get_by_phone_def get_by_contract_def wanted_fields_def)
qed

text \<open>
  Claim C8, amended. In a loaded store, when the Phone Index maps the normalized phone and
  the Contract Index maps a non-empty contract code to the same row position, both lookups
  return the same output under the same \<open>fields\<close> parameter: the projection of that row
  on the wanted fields.
\<close>

theorem same_row_same_projection:
  assumes "load_data cfg csv = Inr st"
    and "phone_idx st (normalize_phone phone) = Some i"
    and "contract_idx st code = Some i"
    and "code \<noteq> []"
  shows "get_by_phone cfg st phone fa = get_by_contract cfg st code fa
       \<and> get_by_phone cfg st phone fa
           = Inr (slice_row (columns (df st), rows (df st) ! i) (wanted_fields cfg fa))"
proof -
  have "i < length (rows (df st))"
    by (rule index_position_valid [OF assms(1)]) (rule disjI2, rule assms(3))
  then have "loc (df st) i = Some (columns (df st), rows (df st) ! i)"
    by (simp add: loc_def)
  with assms(2-4) show ?thesis
    by (simp add: get_by_phone_def get_by_contract_def)
qed

theorem same_row_same_projection_witness:
  "load_data default_config (Inr demo_frame) = Inr demo_store \<and>
   phone_idx demo_store (normalize_phone ''+39 347 1234567'') = Some 2 \<and>
   contract_idx demo_store ''C003'' = Some 2 \<and> ''C003'' \<noteq> [] \<and>
   get_by_phone default_config demo_store ''+39 347 1234567'' (Some ''platform,user_name,nope'')
     = get_by_contract default_config demo_store ''C003'' (Some ''platform,user_name,nope'') \<and>
   get_by_contract default_config demo_store ''C003'' (Some ''platform,user_name,nope'')
     = Inr [''platform'' \<mapsto> ''fiber'', ''user_name'' \<mapsto> ''Verdi'']"
proof -
  have n: "normalize_phone ''+39 347 1234567'' = ''+393471234567''"
    by (simp add: normalize_eval)
  have p: "phone_idx demo_store (normalize_phone ''+39 347 1234567'') = Some 2"
    by (simp add: n demo_lookups)
  have c: "contract_idx demo_store ''C003'' = Some 2" "''C003'' \<noteq> []"
    by (simp_all add: demo_lookups)
  have w: "wanted_fields default_config (Some ''platform,user_name,nope'')
      = [''platform'', ''user_name'', ''nope'']"
    by (simp add: wanted_fields_def)
  have s: "slice_row (columns (df demo_store), rows (df demo_store) ! 2)
      [''platform'', ''user_name'', ''nope'']
      = [''platform'' \<mapsto> ''fiber'', ''user_name'' \<mapsto> ''Verdi'']"
    by (rule ext) (simp add: slice_row_def demo_cols demo_rows demo_columns_def demo_row_def)
  note t = same_row_same_projection [OF demo_loaded p c,
      where fa = "Some ''platform,user_name,nope''"]
  from t have e: "get_by_phone default_config demo_store ''+39 347 1234567''
        (Some ''platform,user_name,nope'')
      = get_by_contract default_config demo_store ''C003'' (Some ''platform,user_name,nope'')"
    by (rule conjunct1)
  from t have "get_by_phone default_config demo_store ''+39 347 1234567''
        (Some ''platform,user_name,nope'')
      = Inr [''platform'' \<mapsto> ''fiber'', ''user_name'' \<mapsto> ''Verdi'']"
    unfolding w s by (rule conjunct2)
  with e have v: "get_by_contract default_config demo_store ''C003''
        (Some ''platform,user_name,nope'')
      = Inr [''platform'' \<mapsto> ''fiber'', ''user_name'' \<mapsto> ''Verdi'']"
    by simp
  from demo_loaded p c e v show ?thesis
    by (intro conjI)
qed

section \<open>Claims about the single-field accessors\<close>

lemmas accessor_defs =
  get_num_tec_def get_num_amm_def get_wifi_active_def get_user_name_def
  get_num_tec_by_phone_def get_num_amm_by_phone_def get_wifi_active_by_phone_def
  get_user_name_by_phone_def

text \<open>
  Claim C3 says that the accessors keyed by contract code fail with BadRequest on an empty
  code, as \<open>get_by_contract\<close> does. They have no such test: on the sample store, whose
  row 1 has an empty contract cell, the generic lookup rejects the empty code and the
  accessors answer from row 1.
\<close>

theorem accessor_empty_code_counterexample:
  "contract_idx demo_store [] = Some 1 \<and>
   get_by_contract default_config demo_store [] None
     = Inl (BadRequest ''Contract code is required'') \<and>
   get_num_tec demo_store [] = Inr (''num_contact_tec'', 12) \<and>
   get_user_name demo_store [] = Inr (''user_name'', PyStr ''Bianchi'')"
  by (simp add: demo_lookups get_by_contract_def get_num_tec_def get_user_name_def
      demo_loc series_get_def demo_columns_def demo_row_def int_of_str_examples)

text \<open>The failure policy of the accessors, one family at a time.\<close>

lemma contract_accessor_not_found:
  "(\<exists>msg. get_num_tec st code = Inl (NotFound msg)) \<longleftrightarrow> contract_idx st code = None"
  "(\<exists>msg. get_num_amm st code = Inl (NotFound msg)) \<longleftrightarrow> contract_idx st code = None"
  "(\<exists>msg. get_wifi_active st code = Inl (NotFound msg)) \<longleftrightarrow> contract_idx st code = None"
  "(\<exists>msg. get_user_name st code = Inl (NotFound msg)) \<longleftrightarrow> contract_idx st code = None"
  by (simp_all add: accessor_defs split: option.splits)

lemma contract_accessor_no_bad_request:
  "get_num_tec st code \<noteq> Inl (BadRequest msg)"
  "get_num_amm st code \<noteq> Inl (BadRequest msg)"
  "get_wifi_active st code \<noteq> Inl (BadRequest msg)"
  "get_user_name st code \<noteq> Inl (BadRequest msg)"
  by (simp_all add: accessor_defs split: option.splits)

lemma phone_accessor_not_found:
  "(\<exists>msg. get_num_tec_by_phone st phone = Inl (NotFound msg)) \<longleftrightarrow>
     phone_idx st (normalize_phone phone) = None"
  "(\<exists>msg. get_num_amm_by_phone st phone = Inl (NotFound msg)) \<longleftrightarrow>
     phone_idx st (normalize_phone phone) = None"
  "(\<exists>msg. get_wifi_active_by_phone st phone = Inl (NotFound msg)) \<longleftrightarrow>
     phone_idx st (normalize_phone phone) = None"
  "(\<exists>msg. get_user_name_by_phone st phone = Inl (NotFound msg)) \<longleftrightarrow>
     phone_idx st (normalize_phone phone) = None"
  by (simp_all add: accessor_defs Let_def split: option.splits)

text \<open>
  Claim C3, amended. The accessors keyed by phone normalize the raw phone before the lookup
  and fail with NotFound exactly when the normalized value is absent from the Phone Index.
  The accessors keyed by contract code fail with NotFound exactly when the code, empty or
  not, is absent from the Contract Index, and never fail with BadRequest.
\<close>

theorem accessor_key_resolution:
  "((\<exists>msg. get_num_tec_by_phone st phone = Inl (NotFound msg)) \<longleftrightarrow>
       phone_idx st (normalize_phone phone) = None)
   \<and> ((\<exists>msg. get_num_amm_by_phone st phone = Inl (NotFound msg)) \<longleftrightarrow>
       phone_idx st (normalize_phone phone) = None)
   \<and> ((\<exists>msg. get_wifi_active_by_phone st phone = Inl (NotFound msg)) \<longleftrightarrow>
       phone_idx st (normalize_phone phone) = None)
   \<and> ((\<exists>msg. get_user_name_by_phone st phone = Inl (NotFound msg)) \<longleftrightarrow>
       phone_idx st (normalize_phone phone) = None)
   \<and> ((\<exists>msg. get_num_tec st code = Inl (NotFound msg)) \<longleftrightarrow> contract_idx st code = None)
   \<and> ((\<exists>msg. get_num_amm st code = Inl (NotFound msg)) \<longleftrightarrow> contract_idx st code = None)
   \<and> ((\<exists>msg. get_wifi_active st code = Inl (NotFound msg)) \<longleftrightarrow> contract_idx st code = None)
   \<and> ((\<exists>msg. get_user_name st code = Inl (NotFound msg)) \<longleftrightarrow> contract_idx st code = None)
   \<and> get_num_tec st code \<noteq> Inl (BadRequest msg)
   \<and> get_num_amm st code \<noteq> Inl (BadRequest msg)
   \<and> get_wifi_active st code \<noteq> Inl (BadRequest msg)
   \<and> get_user_name st code \<noteq> Inl (BadRequest msg)"
  by (intro conjI phone_accessor_not_found contract_accessor_not_found
      contract_accessor_no_bad_request)

theorem accessor_key_resolution_witness:
  "phone_idx demo_store (normalize_phone '' 999 '') = None \<and>
   (\<exists>msg. get_num_tec_by_phone demo_store '' 999 '' = Inl (NotFound msg)) \<and>
   (\<exists>msg. get_user_name_by_phone demo_store '' 999 '' = Inl (NotFound msg)) \<and>
   contract_idx demo_store ''C999'' = None \<and>
   (\<exists>msg. get_wifi_active demo_store ''C999'' = Inl (NotFound msg)) \<and>
   contract_idx demo_store [] \<noteq> None \<and>
   \<not> (\<exists>msg. get_num_amm demo_store [] = Inl (NotFound msg))"
proof -
  have n: "normalize_phone '' 999 '' = ''+999''"
    by (simp add: normalize_eval)
  have p: "phone_idx demo_store (normalize_phone '' 999 '') = None"
    by (simp add: n demo_lookups)
  have c: "contract_idx demo_store ''C999'' = None" "contract_idx demo_store [] \<noteq> None"
    by (simp_all add: demo_lookups)
  note t1 = accessor_key_resolution [of demo_store "'' 999 ''" "''C999''" "[]"]
  note t2 = accessor_key_resolution [of demo_store "'' 999 ''" "[]" "[]"]
  from t1 p have a: "\<exists>msg. get_num_tec_by_phone demo_store '' 999 '' = Inl (NotFound msg)"
    "\<exists>msg. get_user_name_by_phone demo_store '' 999 '' = Inl (NotFound msg)"
    by simp_all
  from t1 c have b: "\<exists>msg. get_wifi_active demo_store ''C999'' = Inl (NotFound msg)"
    by simp
  from t2 c have d: "\<not> (\<exists>msg. get_num_amm demo_store [] = Inl (NotFound msg))"
    by simp
  from p a c b d show ?thesis by (intro conjI)
qed

text \<open>
  Claim C1. Each numeric accessor returns the stored string parsed as an integer, and
  returns 0, never an error, when the field is absent from the record, is the empty string
  or cannot be parsed. The code answers 0 for a field the record does not have
  (\<open>bb_active\<close> in the sample store). A blank cell, however, is stored as the empty
  string, so the default of \<open>rec.get\<close> does not apply to it and the conversion fails: on
  row 0 of the sample store, whose \<open>num_contact_amm\<close> cell is blank, the accessor aborts
  with InternalError, and so it does on row 1, which stores \<open>abc\<close>.
\<close>

theorem numeric_accessor_blank_cell:
  "load_data default_config (Inr demo_frame) = Inr demo_store \<and>
   contract_idx demo_store ''C001'' = Some 0 \<and>
   stored_field demo_store 0 ''num_contact_amm'' = Some [] \<and>
   get_num_amm demo_store ''C001'' = Inl (InternalError ''Internal error retrieving numAmm'') \<and>
   stored_field demo_store 0 ''bb_active'' = None \<and>
   get_wifi_active demo_store ''C001'' = Inr (''bb_active'', 0) \<and>
   phone_idx demo_store (normalize_phone ''3331112222'') = Some 1 \<and>
   stored_field demo_store 1 ''num_contact_amm'' = Some ''abc'' \<and>
   get_num_amm_by_phone demo_store ''3331112222''
     = Inl (InternalError ''Internal error retrieving numAmm'')"
proof -
  have n: "normalize_phone ''3331112222'' = ''+3331112222''"
    by (simp add: normalize_eval)
  show ?thesis
    by (simp add: n demo_loaded demo_lookups get_num_amm_def get_num_amm_by_phone_def
      get_wifi_active_def stored_field_def
      demo_loc demo_cols demo_rows series_get_def demo_columns_def demo_row_def
      int_of_str_examples)
qed

text \<open>What the numeric accessors compute from the fetched row.\<close>

lemma py_int_series_get:
  "py_int (series_get (columns (df st), rows (df st) ! i) name (PyInt 0))
     = (case stored_field st i name of None \<Rightarrow> Some 0 | Some s \<Rightarrow> int_of_str s)"
  by (simp add: series_get_def stored_field_def)

text \<open>
  What each numeric accessor computes for a record of a loaded store that a contract code
  or a phone resolves to: 0 when the record has no such field, the integer when the stored
  string converts, and the abort with status 500 when the conversion raises.
\<close>

lemma numeric_accessors:
  assumes "load_data cfg csv = Inr st"
  shows
   "(contract_idx st code = Some i \<longrightarrow>
       get_num_tec st code =
         (case stored_field st i ''num_contact_tec'' of
            None \<Rightarrow> Inr (''num_contact_tec'', 0)
          | Some s \<Rightarrow> (case int_of_str s of
                        Some n \<Rightarrow> Inr (''num_contact_tec'', n)
                      | None \<Rightarrow> Inl (InternalError ''Internal error retrieving numTec'')))
     \<and> get_num_amm st code =
         (case stored_field st i ''num_contact_amm'' of
            None \<Rightarrow> Inr (''num_contact_amm'', 0)
          | Some s \<Rightarrow> (case int_of_str s of
                        Some n \<Rightarrow> Inr (''num_contact_amm'', n)
                      | None \<Rightarrow> Inl (InternalError ''Internal error retrieving numAmm'')))
     \<and> get_wifi_active st code =
         (case stored_field st i ''bb_active'' of
            None \<Rightarrow> Inr (''bb_active'', 0)
          | Some s \<Rightarrow> (case int_of_str s of
                        Some n \<Rightarrow> Inr (''bb_active'', n)
                      | None \<Rightarrow> Inl (InternalError ''Internal error retrieving wifiActive''))))
  \<and> (phone_idx st (normalize_phone phone) = Some i \<longrightarrow>
       get_num_tec_by_phone st phone =
         (case stored_field st i ''num_contact_tec'' of
            None \<Rightarrow> Inr (''num_contact_tec'', 0)
          | Some s \<Rightarrow> (case int_of_str s of
                        Some n \<Rightarrow> Inr (''num_contact_tec'', n)
                      | None \<Rightarrow> Inl (InternalError ''Internal error retrieving numTec'')))
     \<and> get_num_amm_by_phone st phone =
         (case stored_field st i ''num_contact_amm'' of
            None \<Rightarrow> Inr (''num_contact_amm'', 0)
          | Some s \<Rightarrow> (case int_of_str s of
                        Some n \<Rightarrow> Inr (''num_contact_amm'', n)
                      | None \<Rightarrow> Inl (InternalError ''Internal error retrieving numAmm'')))
     \<and> get_wifi_active_by_phone st phone =
         (case stored_field st i ''bb_active'' of
            None \<Rightarrow> Inr (''bb_active'', 0)
          | Some s \<Rightarrow> (case int_of_str s of
                        Some n \<Rightarrow> Inr (''bb_active'', n)
                      | None \<Rightarrow> Inl (InternalError ''Internal error retrieving wifiActive''))))"
proof (intro conjI impI)
  assume c: "contract_idx st code = Some i"
  have "i < length (rows (df st))"
    by (rule index_position_valid [OF assms]) (rule disjI2, rule c)
  then have l: "loc (df st) i = Some (columns (df st), rows (df st) ! i)"
    by (simp add: loc_def)
  show "get_num_tec st code =
         (case stored_field st i ''num_contact_tec'' of
            None \<Rightarrow> Inr (''num_contact_tec'', 0)
          | Some s \<Rightarrow> (case int_of_str s of
                        Some n \<Rightarrow> Inr (''num_contact_tec'', n)
                      | None \<Rightarrow> Inl (InternalError ''Internal error retrieving numTec'')))"
    by (simp add: get_num_tec_def c l py_int_series_get split: option.splits)
  show "get_num_amm st code =
         (case stored_field st i ''num_contact_amm'' of
            None \<Rightarrow> Inr (''num_contact_amm'', 0)
          | Some s \<Rightarrow> (case int_of_str s of
                        Some n \<Rightarrow> Inr (''num_contact_amm'', n)
                      | None \<Rightarrow> Inl (InternalError ''Internal error retrieving numAmm'')))"
    by (simp add: get_num_amm_def c l py_int_series_get split: option.splits)
  show "get_wifi_active st code =
         (case stored_field st i ''bb_active'' of
            None \<Rightarrow> Inr (''bb_active'', 0)
          | Some s \<Rightarrow> (case int_of_str s of
                        Some n \<Rightarrow> Inr (''bb_active'', n)
                      | None \<Rightarrow> Inl (InternalError ''Internal error retrieving wifiActive'')))"
    by (simp add: get_wifi_active_def c l py_int_series_get split: option.splits)
next
  assume p: "phone_idx st (normalize_phone phone) = Some i"
  have "i < length (rows (df st))"
    by (rule index_position_valid [OF assms]) (rule disjI1, rule p)
  then have l: "loc (df st) i = Some (columns (df st), rows (df st) ! i)"
    by (simp add: loc_def)
  show "get_num_tec_by_phone st phone =
         (case stored_field st i ''num_contact_tec'' of
            None \<Rightarrow> Inr (''num_contact_tec'', 0)
          | Some s \<Rightarrow> (case int_of_str s of
                        Some n \<Rightarrow> Inr (''num_contact_tec'', n)
                      | None \<Rightarrow> Inl (InternalError ''Internal error retrieving numTec'')))"
    by (simp add: get_num_tec_by_phone_def p l py_int_series_get split: option.splits)
  show "get_num_amm_by_phone st phone =
         (case stored_field st i ''num_contact_amm'' of
            None \<Rightarrow> Inr (''num_contact_amm'', 0)
          | Some s \<Rightarrow> (case int_of_str s of
                        Some n \<Rightarrow> Inr (''num_contact_amm'', n)
                      | None \<Rightarrow> Inl (InternalError ''Internal error retrieving numAmm'')))"
    by (simp add: get_num_amm_by_phone_def p l py_int_series_get split: option.splits)
  show "get_wifi_active_by_phone st phone =
         (case stored_field st i ''bb_active'' of
            None \<Rightarrow> Inr (''bb_active'', 0)
          | Some s \<Rightarrow> (case int_of_str s of
                        Some n \<Rightarrow> Inr (''bb_active'', n)
                      | None \<Rightarrow> Inl (InternalError ''Internal error retrieving wifiActive'')))"
    by (simp add: get_wifi_active_by_phone_def p l py_int_series_get split: option.splits)
qed

lemma numeric_accessors_example:
  "load_data default_config (Inr demo_frame) = Inr demo_store \<and>
   contract_idx demo_store ''C003'' = Some 2 \<and>
   phone_idx demo_store (normalize_phone ''+39 347 1234567'') = Some 2 \<and>
   stored_field demo_store 2 ''num_contact_tec'' = Some '' -7 '' \<and>
   stored_field demo_store 2 ''num_contact_amm'' = Some ''1_000'' \<and>
   stored_field demo_store 2 ''bb_active'' = None \<and>
   get_num_tec demo_store ''C003'' = Inr (''num_contact_tec'', - 7) \<and>
   get_num_amm demo_store ''C003'' = Inr (''num_contact_amm'', 1000) \<and>
   get_wifi_active demo_store ''C003'' = Inr (''bb_active'', 0) \<and>
   get_num_tec_by_phone demo_store ''+39 347 1234567'' = Inr (''num_contact_tec'', - 7) \<and>
   get_wifi_active_by_phone demo_store ''+39 347 1234567'' = Inr (''bb_active'', 0)"
proof -
  have n: "normalize_phone ''+39 347 1234567'' = ''+393471234567''"
    by (simp add: normalize_eval)
  have p: "phone_idx demo_store (normalize_phone ''+39 347 1234567'') = Some 2"
    by (simp add: n demo_lookups)
  have c: "contract_idx demo_store ''C003'' = Some 2"
    by (simp add: demo_lookups)
  have f: "stored_field demo_store 2 ''num_contact_tec'' = Some '' -7 ''"
    "stored_field demo_store 2 ''num_contact_amm'' = Some ''1_000''"
    "stored_field demo_store 2 ''bb_active'' = None"
    by (simp_all add: stored_field_def demo_cols demo_rows demo_columns_def demo_row_def)
  show ?thesis
    using numeric_accessors [OF demo_loaded, of "''C003''" 2 "''+39 347 1234567''"]
      demo_loaded p c f
    by (simp add: int_of_str_examples)
qed

end
